theory Spec2Isabelle
  imports Complex_Main
begin

section \<open>Data model\<close>

text \<open>
  The component \<open>SnowGlass\<close> (src/components/SnowGlass.tsx) and its types
  (\<open>Point\<close>, \<open>Snowflake\<close>). JavaScript numbers are modelled as real numbers:
  rounding, NaN and the infinities of IEEE doubles are outside the model. The fields
  \<open>x\<close>, \<open>y\<close> of \<open>Point\<close> are \<open>pt_x\<close>, \<open>pt_y\<close>; the fields of \<open>Snowflake\<close>
  carry the prefix \<open>s_\<close> (the source iterates with \<open>s => ...\<close>).
\<close>

record Point =
  pt_x :: real
  pt_y :: real

record Snowflake =
  s_x :: real
  s_y :: real
  s_size :: real
  s_speed :: real
  s_opacity :: real
  s_wind :: real

datatype js_error = TypeError

text \<open>
  The fog surface is an off-screen canvas. Its content is the sequence of drawing calls
  made on it since it was last cleared, so it is modelled as that sequence. A colour is
  \<open>rgba(r, g, b, a)\<close>; a radial gradient is \<open>createRadialGradient(x0, y0, r0, x1, y1, r1)\<close>
  with its colour stops; \<open>FillArc\<close> is \<open>beginPath(); arc(x, y, radius, 0, 2 * PI); fill()\<close>
  under a composite operation and a gradient fill style.
\<close>

type_synonym rgba = "nat \<times> nat \<times> nat \<times> real"

datatype composite = SourceOver | DestinationOut

datatype gradient = RadialGradient real real real real real real "(real \<times> rgba) list"

datatype fog_op =
    FillRect composite rgba real real real real
  | FillArc composite gradient real real real

text \<open>The calls on the visible canvas in one render step, in order.\<close>

datatype main_op =
    DrawVideo real real
  | DrawShine real real
  | DrawFogLayer real
  | DrawFlake real real real real
  | DrawGlyph real real

text \<open>
  The state of a mounted component: the React state (\<open>breathIntensity\<close>,
  \<open>handDetected\<close>, \<open>peaceDetected\<close>), the refs, the prop \<open>isSymmetry\<close>, the
  dimensions of the visible canvas (\<open>resize\<close> gives the fog canvas the same ones), the
  content of the fog canvas, and whether a \<open>requestAnimationFrame\<close> callback is pending
  (\<open>requestRef\<close>). \<open>handPresenceTime\<close>
  uses 0 for "unset", as the source does. A render step reads the React state and the
  prop at their latest values: React re-creates \<open>animate\<close> and re-subscribes it
  whenever one of them changes.
\<close>

record st =
  breathIntensity :: real
  handDetected :: bool
  peaceDetected :: bool
  mouthPos :: Point
  indexTipPos :: "Point option"
  smoothedIndexTip :: "Point option"
  handPresenceTime :: real
  snowflakes :: "Snowflake list"
  isBreathingManual :: bool
  isSymmetry :: bool
  canvasW :: nat
  canvasH :: nat
  fog :: "fog_op list"
  rafPending :: bool
  mounted :: bool

definition FOG_OPACITY_LIMIT :: real where
  "FOG_OPACITY_LIMIT = 0.85"

definition SMOOTHING_FACTOR :: real where
  "SMOOTHING_FACTOR = 0.15"

definition WIPE_DELAY_MS :: real where
  "WIPE_DELAY_MS = 1000"

definition SNOW_COUNT :: nat where
  "SNOW_COUNT = 60"

section \<open>Tracker callbacks\<close>

text \<open>
  \<open>landmarks[i]\<close> on a JavaScript array: \<open>undefined\<close> out of range, and reading a
  field of \<open>undefined\<close> throws a TypeError.
\<close>

definition landmark_at :: "'a list \<Rightarrow> nat \<Rightarrow> 'a option" where
  "landmark_at xs i = (if i < length xs then Some (xs ! i) else None)"

text \<open>
  \<open>hands.onResults\<close>. The argument is \<open>results.multiHandLandmarks\<close> (\<open>None\<close> when
  it is undefined). The result pairs the exception thrown, if any, with the state at
  that point: \<open>setHandDetected(true)\<close> runs before \<open>landmarks[8]\<close> is read, and
  \<open>indexTipPos\<close> is assigned before landmarks 6, 12, 10, 16, 14, 20 and 18 are read.
\<close>

definition hands_onResults :: "Point list list option \<Rightarrow> st \<Rightarrow> js_error option \<times> st" where
  "hands_onResults multiHandLandmarks s =
     (case multiHandLandmarks of
        Some (landmarks # _) \<Rightarrow>
          (let s1 = s\<lparr>handDetected := True\<rparr> in
           case landmark_at landmarks 8 of
             None \<Rightarrow> (Some TypeError, s1)
           | Some l8 \<Rightarrow>
               (let s2 = s1\<lparr>indexTipPos := Some \<lparr>pt_x = pt_x l8, pt_y = pt_y l8\<rparr>\<rparr> in
                if length landmarks < 21 then (Some TypeError, s2)
                else
                  (let isIndexUp = pt_y (landmarks ! 8) < pt_y (landmarks ! 6);
                       isMiddleUp = pt_y (landmarks ! 12) < pt_y (landmarks ! 10);
                       isRingDown = pt_y (landmarks ! 16) > pt_y (landmarks ! 14);
                       isPinkyDown = pt_y (landmarks ! 20) > pt_y (landmarks ! 18)
                   in (None, s2\<lparr>peaceDetected :=
                         isIndexUp \<and> isMiddleUp \<and> isRingDown \<and> isPinkyDown\<rparr>))))
      | _ \<Rightarrow>
          (None, s\<lparr>handDetected := False, peaceDetected := False,
                    indexTipPos := None, handPresenceTime := 0\<rparr>))"

text \<open>
  \<open>faceMesh.onResults\<close>. \<open>dist\<close> is the Euclidean distance of landmarks 13 and 14,
  \<open>intensity\<close> the clamp of the source. A landmark list shorter than 15 throws at the
  computation of \<open>dist\<close>, before any assignment.
\<close>

definition lip_dist :: "Point \<Rightarrow> Point \<Rightarrow> real" where
  "lip_dist upperLip lowerLip =
     sqrt ((pt_x upperLip - pt_x lowerLip)\<^sup>2 + (pt_y upperLip - pt_y lowerLip)\<^sup>2)"

definition intensity :: "real \<Rightarrow> real" where
  "intensity d = min (max ((d - 0.01) * 15) 0) 1"

definition faceMesh_onResults :: "Point list list option \<Rightarrow> st \<Rightarrow> js_error option \<times> st" where
  "faceMesh_onResults multiFaceLandmarks s =
     (case multiFaceLandmarks of
        Some (landmarks # _) \<Rightarrow>
          (case landmark_at landmarks 13 of
             None \<Rightarrow> (Some TypeError, s)
           | Some upperLip \<Rightarrow>
               (case landmark_at landmarks 14 of
                  None \<Rightarrow> (Some TypeError, s)
                | Some lowerLip \<Rightarrow>
                    (None, s\<lparr>breathIntensity := intensity (lip_dist upperLip lowerLip),
                              mouthPos := \<lparr>pt_x = (pt_x upperLip + pt_x lowerLip) / 2,
                                           pt_y = (pt_y upperLip + pt_y lowerLip) / 2\<rparr>\<rparr>)))
      | _ \<Rightarrow> (None, s\<lparr>breathIntensity := 0\<rparr>))"

text \<open>The key handlers: only the space bar drives the manual breath.\<close>

definition handleKeyDown :: "string \<Rightarrow> st \<Rightarrow> st" where
  "handleKeyDown code s = (if code = ''Space'' then s\<lparr>isBreathingManual := True\<rparr> else s)"

definition handleKeyUp :: "string \<Rightarrow> st \<Rightarrow> st" where
  "handleKeyUp code s = (if code = ''Space'' then s\<lparr>isBreathingManual := False\<rparr> else s)"

section \<open>The render step\<close>

text \<open>
  What one call of \<open>animate\<close> reads from its environment: whether
  \<open>canvasRef.current\<close>, \<open>videoSource\<close> and the two 2D contexts are there, the
  readings of \<open>performance.now()\<close> (\<open>nowStart\<close> is the reading that starts the
  presence timer, taken only when the timer is unset; \<open>nowElapsed\<close> is the reading in
  \<open>elapsed\<close>), and the values \<open>Math.random()\<close> returns, by call number.
\<close>

record frame_env =
  canvasAvail :: bool
  videoAvail :: bool
  ctxAvail :: bool
  fCtxAvail :: bool
  nowStart :: real
  nowElapsed :: real
  rnd :: "nat \<Rightarrow> real"

record frame_out =
  main_ops :: "main_op list"
  fog_ops :: "fog_op list"
  scheduled :: bool

text \<open>Step 3 of \<open>animate\<close>: fog accumulation.\<close>

definition effectiveIntensity :: "st \<Rightarrow> real" where
  "effectiveIntensity s = max (breathIntensity s) (if isBreathingManual s then 0.8 else 0)"

definition fog_accumulation :: "real \<Rightarrow> real \<Rightarrow> st \<Rightarrow> fog_op list" where
  "fog_accumulation width height s =
     (if effectiveIntensity s > 0.1 then
        (let x = (1 - pt_x (mouthPos s)) * width;
             y = pt_y (mouthPos s) * height;
             radius = 100 + effectiveIntensity s * 150;
             alpha = effectiveIntensity s * 0.04
         in [FillArc SourceOver
               (RadialGradient x y 0 x y radius
                  [(0, (200, 220, 240, alpha)),
                   (0.6, (200, 220, 240, alpha * 0.4)),
                   (1, (200, 220, 240, 0))])
               x y radius])
      else [])"

text \<open>
  Step 4 of \<open>animate\<close>: hand wiping. \<open>smooth\<close> is the update of the smoothed
  fingertip towards the target, \<open>wipe\<close> the local function of the source.
\<close>

definition wipe :: "real \<Rightarrow> real \<Rightarrow> fog_op" where
  "wipe wx wy =
     (let wipeRadius = 45 in
      FillArc DestinationOut
        (RadialGradient wx wy (wipeRadius * 0.2) wx wy wipeRadius
           [(0, (0, 0, 0, 1)), (0.8, (0, 0, 0, 0.4)), (1, (0, 0, 0, 0))])
        wx wy wipeRadius)"

definition smooth :: "Point \<Rightarrow> Point \<Rightarrow> Point" where
  "smooth target p =
     \<lparr>pt_x = pt_x p + (pt_x target - pt_x p) * SMOOTHING_FACTOR,
      pt_y = pt_y p + (pt_y target - pt_y p) * SMOOTHING_FACTOR\<rparr>"

definition hand_wiping :: "frame_env \<Rightarrow> real \<Rightarrow> real \<Rightarrow> st \<Rightarrow> st \<times> fog_op list" where
  "hand_wiping env width height s =
     (case indexTipPos s of
        Some tip \<Rightarrow>
          (let s1 = (if handPresenceTime s = 0
                     then s\<lparr>handPresenceTime := nowStart env\<rparr> else s);
               elapsed = nowElapsed env - handPresenceTime s1
           in if elapsed > WIPE_DELAY_MS then
                (let target = \<lparr>pt_x = (1 - pt_x tip) * width,
                               pt_y = pt_y tip * height\<rparr>;
                     sm = (case smoothedIndexTip s1 of
                             None \<Rightarrow> target
                           | Some p \<Rightarrow> smooth target p)
                 in (s1\<lparr>smoothedIndexTip := Some sm\<rparr>,
                     wipe (pt_x sm) (pt_y sm) #
                       (if isSymmetry s then [wipe (width - pt_x sm) (pt_y sm)] else [])))
              else (s1, []))
      | None \<Rightarrow> (s\<lparr>smoothedIndexTip := None\<rparr>, []))"

text \<open>
  Step 6 of \<open>animate\<close>: each flake is drawn where it is, then advanced; a flake below
  the canvas goes back to the top at a random \<open>x\<close>. \<open>k\<close> counts the calls of
  \<open>Math.random()\<close> made so far in the step.
\<close>

fun falling_snow :: "(nat \<Rightarrow> real) \<Rightarrow> nat \<Rightarrow> real \<Rightarrow> real \<Rightarrow> Snowflake list \<Rightarrow> Snowflake list" where
  "falling_snow r k width height [] = []"
| "falling_snow r k width height (s # ss) =
     (let s1 = s\<lparr>s_y := s_y s + s_speed s, s_x := s_x s + s_wind s\<rparr> in
      if s_y s1 > height
      then s1\<lparr>s_y := - 10, s_x := r k * width\<rparr> # falling_snow r (Suc k) width height ss
      else s1 # falling_snow r k width height ss)"

definition draw_snow :: "Snowflake list \<Rightarrow> main_op list" where
  "draw_snow ss = map (\<lambda>s. DrawFlake (s_x s) (s_y s) (s_size s) (s_opacity s)) ss"

definition animate :: "frame_env \<Rightarrow> st \<Rightarrow> st \<times> frame_out" where
  "animate env s =
     (if \<not> canvasAvail env \<or> \<not> videoAvail env then
        (s, \<lparr>main_ops = [], fog_ops = [], scheduled = False\<rparr>)
      else if \<not> ctxAvail env \<or> \<not> fCtxAvail env then
        (s, \<lparr>main_ops = [], fog_ops = [], scheduled = False\<rparr>)
      else
        (let width = real (canvasW s);
             height = real (canvasH s);
             deposit = fog_accumulation width height s;
             (s1, wipes) = hand_wiping env width height s;
             glyph = (if peaceDetected s then [DrawGlyph (width / 2) (height / 2 + 70)] else [])
         in (s1\<lparr>fog := fog s @ deposit @ wipes,
                 snowflakes := falling_snow (rnd env) 0 width height (snowflakes s),
                 rafPending := True\<rparr>,
             \<lparr>main_ops = [DrawVideo width height, DrawShine width height,
                          DrawFogLayer FOG_OPACITY_LIMIT]
                         @ draw_snow (snowflakes s) @ glyph,
              fog_ops = deposit @ wipes,
              scheduled = True\<rparr>)))"

section \<open>Mounting, resizing, teardown\<close>

text \<open>
  \<open>resize\<close>: assigning \<open>width\<close> and \<open>height\<close> of a canvas clears it and resets its
  context (so the fill is composited source-over); the fog canvas is then filled.
\<close>

definition resize :: "bool \<Rightarrow> bool \<Rightarrow> nat \<Rightarrow> nat \<Rightarrow> st \<Rightarrow> st" where
  "resize canvasThere fCtxThere innerWidth innerHeight s =
     (if \<not> canvasThere then s
      else
        (let s1 = s\<lparr>canvasW := innerWidth, canvasH := innerHeight, fog := []\<rparr> in
         if fCtxThere
         then s1\<lparr>fog := [FillRect SourceOver (200, 220, 240, 0.15)
                            0 0 (real innerWidth) (real innerHeight)]\<rparr>
         else s1))"

text \<open>
  The snow of the first effect: \<open>SNOW_COUNT\<close> flakes, six calls of \<open>Math.random()\<close>
  each, in the order of the object literal.
\<close>

definition init_snow :: "(nat \<Rightarrow> real) \<Rightarrow> Snowflake list" where
  "init_snow r =
     map (\<lambda>i. \<lparr>s_x = r (6 * i) * 1920,
               s_y = r (6 * i + 1) * 1080,
               s_size = 1 + r (6 * i + 2) * 3,
               s_speed = 0.5 + r (6 * i + 3) * 1.5,
               s_opacity = 0.2 + r (6 * i + 4) * 0.5,
               s_wind = (r (6 * i + 5) - 0.5) * 0.5\<rparr>)
         [0 ..< SNOW_COUNT]"

text \<open>
  The initial values of \<open>useState\<close> and \<open>useRef\<close> (a canvas element is 300 by 150
  until sized), and the effects run at mount: the snow, then \<open>resize()\<close> and the first
  \<open>requestAnimationFrame(animate)\<close>.
\<close>

definition initial :: "bool \<Rightarrow> st" where
  "initial symmetry =
     \<lparr>breathIntensity = 0, handDetected = False, peaceDetected = False,
      mouthPos = \<lparr>pt_x = 0.5, pt_y = 0.5\<rparr>,
      indexTipPos = None, smoothedIndexTip = None, handPresenceTime = 0,
      snowflakes = [], isBreathingManual = False, isSymmetry = symmetry,
      canvasW = 300, canvasH = 150, fog = [], rafPending = False, mounted = False\<rparr>"

definition animate_effect :: "bool \<Rightarrow> bool \<Rightarrow> nat \<Rightarrow> nat \<Rightarrow> st \<Rightarrow> st" where
  "animate_effect canvasThere fCtxThere innerWidth innerHeight s =
     (resize canvasThere fCtxThere innerWidth innerHeight s)\<lparr>rafPending := True\<rparr>"

definition mount :: "(nat \<Rightarrow> real) \<Rightarrow> bool \<Rightarrow> bool \<Rightarrow> bool \<Rightarrow> nat \<Rightarrow> nat \<Rightarrow> st" where
  "mount r symmetry canvasThere fCtxThere innerWidth innerHeight =
     animate_effect canvasThere fCtxThere innerWidth innerHeight
       ((initial symmetry)\<lparr>snowflakes := init_snow r, mounted := True\<rparr>)"

text \<open>
  What can happen to a mounted component. \<open>Refresh\<close> is a display refresh: the pending
  callback, if any, runs. \<open>EffectRerun\<close> is React running the last effect again because
  \<open>animate\<close> changed identity (its cleanup cancels the pending callback, its body
  resizes and requests a frame). \<open>Unmount\<close> is the teardown: every listener and
  callback is removed, so later events change nothing. An exception in a tracker
  callback leaves the state as it was when it was thrown.
\<close>

datatype event =
    HandsResults "Point list list option"
  | FaceResults "Point list list option"
  | KeyDown string
  | KeyUp string
  | ToggleSymmetry
  | WindowResize bool bool nat nat
  | EffectRerun bool bool nat nat
  | Refresh frame_env
  | Unmount

fun step :: "event \<Rightarrow> st \<Rightarrow> st" where
  "step e s =
     (if \<not> mounted s then s
      else case e of
        HandsResults r \<Rightarrow> snd (hands_onResults r s)
      | FaceResults r \<Rightarrow> snd (faceMesh_onResults r s)
      | KeyDown code \<Rightarrow> handleKeyDown code s
      | KeyUp code \<Rightarrow> handleKeyUp code s
      | ToggleSymmetry \<Rightarrow> s\<lparr>isSymmetry := \<not> isSymmetry s\<rparr>
      | WindowResize c f w h \<Rightarrow> resize c f w h s
      | EffectRerun c f w h \<Rightarrow> animate_effect c f w h (s\<lparr>rafPending := False\<rparr>)
      | Refresh env \<Rightarrow>
          (if rafPending s then fst (animate env (s\<lparr>rafPending := False\<rparr>)) else s)
      | Unmount \<Rightarrow> s\<lparr>rafPending := False, mounted := False\<rparr>)"

fun run :: "event list \<Rightarrow> st \<Rightarrow> st" where
  "run [] s = s"
| "run (e # es) s = run es (step e s)"

section \<open>Observations\<close>

text \<open>
  A deposit is a fill composited source-over, an erase a fill composited
  destination-out; \<open>available\<close> says that the two guards at the head of
  \<open>animate\<close> let the step through; \<open>timer_start\<close> is the start of the presence
  timer that a render step with a fingertip works with.
\<close>

fun op_composite :: "fog_op \<Rightarrow> composite" where
  "op_composite (FillRect c _ _ _ _ _) = c"
| "op_composite (FillArc c _ _ _ _) = c"

definition deposits :: "fog_op list \<Rightarrow> fog_op list" where
  "deposits ops = filter (\<lambda>p. op_composite p = SourceOver) ops"

definition erases :: "fog_op list \<Rightarrow> fog_op list" where
  "erases ops = filter (\<lambda>p. op_composite p = DestinationOut) ops"

definition available :: "frame_env \<Rightarrow> bool" where
  "available env = (canvasAvail env \<and> videoAvail env \<and> ctxAvail env \<and> fCtxAvail env)"

definition timer_start :: "frame_env \<Rightarrow> st \<Rightarrow> real" where
  "timer_start env s = (if handPresenceTime s = 0 then nowStart env else handPresenceTime s)"

text \<open>
  Kinds of events: a face result that carries a face, a hand result that carries no
  hand, and an event whose render step reads the clock at \<open>g\<close> or later.
\<close>

fun face_seen :: "event \<Rightarrow> bool" where
  "face_seen (FaceResults (Some (l # ls))) = True"
| "face_seen _ = False"

fun hand_lost :: "event \<Rightarrow> bool" where
  "hand_lost (HandsResults None) = True"
| "hand_lost (HandsResults (Some [])) = True"
| "hand_lost _ = False"

fun clock_from :: "real \<Rightarrow> event \<Rightarrow> bool" where
  "clock_from g (Refresh env) = (g \<le> nowStart env)"
| "clock_from g _ = True"

text \<open>
  The ranges the initialisation draws a flake from, the relation between a flake before
  and after one advance, and the invariant of the snow.
\<close>

definition flake_ok :: "Snowflake \<Rightarrow> bool" where
  "flake_ok fl =
     (1 \<le> s_size fl \<and> s_size fl < 4 \<and> 0.5 \<le> s_speed fl \<and> s_speed fl < 2 \<and>
      0.2 \<le> s_opacity fl \<and> s_opacity fl < 0.7 \<and> - 0.25 \<le> s_wind fl \<and> s_wind fl < 0.25)"

definition advanced :: "(nat \<Rightarrow> real) \<Rightarrow> real \<Rightarrow> real \<Rightarrow> Snowflake \<Rightarrow> Snowflake \<Rightarrow> bool" where
  "advanced r width height fl fl' =
     (s_size fl' = s_size fl \<and> s_speed fl' = s_speed fl \<and>
      s_opacity fl' = s_opacity fl \<and> s_wind fl' = s_wind fl \<and>
      (if s_y fl + s_speed fl > height
       then s_y fl' = - 10 \<and> (\<exists>k. s_x fl' = r k * width)
       else s_y fl' = s_y fl + s_speed fl \<and> s_x fl' = s_x fl + s_wind fl))"

definition snow_inv :: "st \<Rightarrow> bool" where
  "snow_inv s = (length (snowflakes s) = 60 \<and> list_all flake_ok (snowflakes s))"

section \<open>Example inputs\<close>

text \<open>
  A viewport of 800 by 600, a random source that always returns one half, a clock at
  5000 ms, a face with the lips 0.04 apart, and a hand of 21 landmarks with the index
  fingertip at (0.2, 0.5). \<open>example_tracking\<close> is the component once the hand has been
  seen and one render step has started the timer; \<open>example_wiping\<close> has erased once
  and been resized; \<open>example_gap\<close> has lost the hand.
\<close>

definition example_env :: frame_env where
  "example_env =
     \<lparr>canvasAvail = True, videoAvail = True, ctxAvail = True, fCtxAvail = True,
      nowStart = 5000, nowElapsed = 5000, rnd = (\<lambda>k. 1 / 2)\<rparr>"

definition example_face :: "Point list" where
  "example_face =
     replicate 13 \<lparr>pt_x = 1 / 2, pt_y = 2 / 5\<rparr> @
     [\<lparr>pt_x = 1 / 2, pt_y = 1 / 2\<rparr>, \<lparr>pt_x = 1 / 2, pt_y = 27 / 50\<rparr>]"

definition example_hand :: "Point list" where
  "example_hand =
     replicate 8 \<lparr>pt_x = 1 / 2, pt_y = 3 / 5\<rparr> @ [\<lparr>pt_x = 1 / 5, pt_y = 1 / 2\<rparr>] @
     replicate 12 \<lparr>pt_x = 1 / 2, pt_y = 3 / 5\<rparr>"

definition example_mount :: st where
  "example_mount = mount (\<lambda>k. 1 / 2) False True True 800 600"

definition example_tracking :: st where
  "example_tracking = run [HandsResults (Some [example_hand]), Refresh example_env] example_mount"

definition example_wiping :: st where
  "example_wiping =
     run [Refresh (example_env\<lparr>nowElapsed := 7000\<rparr>), WindowResize True True 1024 768]
       example_tracking"

definition example_frames :: "frame_env list" where
  "example_frames = replicate 29 (example_env\<lparr>nowElapsed := 8000\<rparr>)"

definition example_gap :: st where
  "example_gap = run [HandsResults None] example_tracking"

text \<open>
  A random source that always returns nine tenths puts the flakes at \<open>y = 972\<close> with
  speed 1.85: \<open>example_low_mount\<close> is mounted in a viewport of 800 by 600;
  \<open>example_shrunk\<close> is mounted at 1920 by 1080, renders once and is then resized to
  800 by 600.
\<close>

definition example_low_mount :: st where
  "example_low_mount = mount (\<lambda>k. 9 / 10) False True True 800 600"

definition example_shrunk :: st where
  "example_shrunk =
     run [Refresh example_env, WindowResize True True 800 600]
       (mount (\<lambda>k. 9 / 10) False True True 1920 1080)"

section \<open>Facts about the render step and the callbacks\<close>

lemma op_composite_wipe: "op_composite (wipe wx wy) = DestinationOut"
  by (simp add: wipe_def)

lemma deposits_fog_accumulation: "deposits (fog_accumulation w h s) = fog_accumulation w h s"
  by (simp add: deposits_def fog_accumulation_def Let_def)

lemma erases_fog_accumulation: "erases (fog_accumulation w h s) = []"
  by (simp add: erases_def fog_accumulation_def Let_def)

lemma deposits_hand_wiping: "deposits (snd (hand_wiping env w h s)) = []"
  by (simp add: deposits_def hand_wiping_def Let_def op_composite_wipe split: option.split)

lemma erases_hand_wiping: "erases (snd (hand_wiping env w h s)) = snd (hand_wiping env w h s)"
  by (simp add: erases_def hand_wiping_def Let_def op_composite_wipe split: option.split)

lemma deposits_append: "deposits (xs @ ys) = deposits xs @ deposits ys"
  by (simp add: deposits_def)

lemma erases_append: "erases (xs @ ys) = erases xs @ erases ys"
  by (simp add: erases_def)

lemma animate_unavailable:
  "\<not> available env \<Longrightarrow> animate env s = (s, \<lparr>main_ops = [], fog_ops = [], scheduled = False\<rparr>)"
  by (auto simp add: animate_def available_def)

lemma animate_fog_ops:
  "available env \<Longrightarrow> fog_ops (snd (animate env s)) =
     fog_accumulation (real (canvasW s)) (real (canvasH s)) s @ snd (hand_wiping env (real (canvasW s)) (real (canvasH s)) s)"
  by (simp add: animate_def available_def Let_def split: prod.split)

lemma animate_deposits:
  "available env \<Longrightarrow> deposits (fog_ops (snd (animate env s))) =
     fog_accumulation (real (canvasW s)) (real (canvasH s)) s"
  by (simp add: animate_fog_ops deposits_append deposits_fog_accumulation deposits_hand_wiping)

lemma animate_erases:
  "available env \<Longrightarrow> erases (fog_ops (snd (animate env s))) = snd (hand_wiping env (real (canvasW s)) (real (canvasH s)) s)"
  by (simp add: animate_fog_ops erases_append erases_fog_accumulation erases_hand_wiping)

lemma animate_fog:
  "fog (fst (animate env s)) = fog s @ fog_ops (snd (animate env s))"
  by (simp add: animate_def Let_def split: prod.split)

lemma animate_smoothed:
  "available env \<Longrightarrow> smoothedIndexTip (fst (animate env s)) = smoothedIndexTip (fst (hand_wiping env (real (canvasW s)) (real (canvasH s)) s))"
  by (simp add: animate_def available_def Let_def split: prod.split)

lemma animate_timer:
  "available env \<Longrightarrow> handPresenceTime (fst (animate env s)) = handPresenceTime (fst (hand_wiping env (real (canvasW s)) (real (canvasH s)) s))"
  by (simp add: animate_def available_def Let_def split: prod.split)

lemma intensity_mono: "d \<le> d' \<Longrightarrow> intensity d \<le> intensity d'"
  by (simp add: intensity_def min_def max_def)

lemma faceMesh_face:
  "15 \<le> length landmarks \<Longrightarrow>
   faceMesh_onResults (Some (landmarks # rest)) s =
     (None, s\<lparr>breathIntensity := intensity (lip_dist (landmarks ! 13) (landmarks ! 14)),
               mouthPos := \<lparr>pt_x = (pt_x (landmarks ! 13) + pt_x (landmarks ! 14)) / 2,
                            pt_y = (pt_y (landmarks ! 13) + pt_y (landmarks ! 14)) / 2\<rparr>\<rparr>)"
  by (simp add: faceMesh_onResults_def landmark_at_def)

lemma hand_wiping_keeps:
  "breathIntensity (fst (hand_wiping env w h s)) = breathIntensity s"
  "mouthPos (fst (hand_wiping env w h s)) = mouthPos s"
  "indexTipPos (fst (hand_wiping env w h s)) = indexTipPos s"
  "isBreathingManual (fst (hand_wiping env w h s)) = isBreathingManual s"
  "isSymmetry (fst (hand_wiping env w h s)) = isSymmetry s"
  "canvasW (fst (hand_wiping env w h s)) = canvasW s"
  "canvasH (fst (hand_wiping env w h s)) = canvasH s"
  "mounted (fst (hand_wiping env w h s)) = mounted s"
  "snowflakes (fst (hand_wiping env w h s)) = snowflakes s"
  by (simp_all add: hand_wiping_def Let_def split: option.split)

lemma animate_keeps:
  "breathIntensity (fst (animate env s)) = breathIntensity s"
  "mouthPos (fst (animate env s)) = mouthPos s"
  "indexTipPos (fst (animate env s)) = indexTipPos s"
  "isBreathingManual (fst (animate env s)) = isBreathingManual s"
  "isSymmetry (fst (animate env s)) = isSymmetry s"
  "canvasW (fst (animate env s)) = canvasW s"
  "canvasH (fst (animate env s)) = canvasH s"
  "mounted (fst (animate env s)) = mounted s"
  by (simp_all add: animate_def Let_def case_prod_beta hand_wiping_keeps)

lemma animate_snowflakes:
  "snowflakes (fst (animate env s)) =
     (if available env
      then falling_snow (rnd env) 0 (real (canvasW s)) (real (canvasH s)) (snowflakes s)
      else snowflakes s)"
  by (auto simp add: animate_def available_def Let_def case_prod_beta)

lemma hands_keeps:
  "breathIntensity (snd (hands_onResults r s)) = breathIntensity s"
  "mouthPos (snd (hands_onResults r s)) = mouthPos s"
  "snowflakes (snd (hands_onResults r s)) = snowflakes s"
  "smoothedIndexTip (snd (hands_onResults r s)) = smoothedIndexTip s"
  "canvasW (snd (hands_onResults r s)) = canvasW s"
  "canvasH (snd (hands_onResults r s)) = canvasH s"
  "mounted (snd (hands_onResults r s)) = mounted s"
  "rafPending (snd (hands_onResults r s)) = rafPending s"
  by (simp_all add: hands_onResults_def Let_def split: option.split list.split)

lemma face_keeps:
  "snowflakes (snd (faceMesh_onResults r s)) = snowflakes s"
  "indexTipPos (snd (faceMesh_onResults r s)) = indexTipPos s"
  "handPresenceTime (snd (faceMesh_onResults r s)) = handPresenceTime s"
  "smoothedIndexTip (snd (faceMesh_onResults r s)) = smoothedIndexTip s"
  "canvasW (snd (faceMesh_onResults r s)) = canvasW s"
  "canvasH (snd (faceMesh_onResults r s)) = canvasH s"
  "mounted (snd (faceMesh_onResults r s)) = mounted s"
  "rafPending (snd (faceMesh_onResults r s)) = rafPending s"
  by (simp_all add: faceMesh_onResults_def Let_def split: option.split list.split)

lemma face_lost:
  "\<not> face_seen (FaceResults r) \<Longrightarrow> faceMesh_onResults r s = (None, s\<lparr>breathIntensity := 0\<rparr>)"
proof (cases r)
  case None
  then show ?thesis
    by (simp add: faceMesh_onResults_def)
next
  case (Some faces)
  assume "\<not> face_seen (FaceResults r)"
  with Some show ?thesis
    by (cases faces) (simp_all add: faceMesh_onResults_def)
qed

lemma resize_keeps:
  "breathIntensity (resize c f w h s) = breathIntensity s"
  "mouthPos (resize c f w h s) = mouthPos s"
  "snowflakes (resize c f w h s) = snowflakes s"
  "indexTipPos (resize c f w h s) = indexTipPos s"
  "handPresenceTime (resize c f w h s) = handPresenceTime s"
  "smoothedIndexTip (resize c f w h s) = smoothedIndexTip s"
  "mounted (resize c f w h s) = mounted s"
  by (simp_all add: resize_def Let_def)

lemma step_no_face:
  "\<not> face_seen e \<Longrightarrow> breathIntensity s = 0 \<Longrightarrow> 
   breathIntensity (step e s) = 0 \<and> mouthPos (step e s) = mouthPos s"
  by (cases e)
     (simp_all add: hands_keeps face_lost handleKeyDown_def handleKeyUp_def
        resize_keeps animate_effect_def animate_keeps)

lemma run_no_face:
  "\<forall>e\<in>set evs. \<not> face_seen e \<Longrightarrow> breathIntensity s = 0 \<Longrightarrow>
   breathIntensity (run evs s) = 0 \<and> mouthPos (run evs s) = mouthPos s"
proof (induction evs arbitrary: s)
  case Nil
  then show ?case by simp
next
  case (Cons e evs)
  from Cons.prems have e: "\<not> face_seen e" and rest: "\<forall>e\<in>set evs. \<not> face_seen e"
    by simp_all
  from step_no_face [OF e Cons.prems(2)]
  have "breathIntensity (step e s) = 0" and m: "mouthPos (step e s) = mouthPos s"
    by simp_all
  with Cons.IH [OF rest] show ?case
    by simp
qed

lemma mount_breath:
  "breathIntensity (mount r symmetry c f w h) = 0"
  "mouthPos (mount r symmetry c f w h) = \<lparr>pt_x = 0.5, pt_y = 0.5\<rparr>"
  by (simp_all add: mount_def animate_effect_def resize_keeps initial_def)

lemma falling_snow_advanced:
  "list_all2 (advanced r width height) ss (falling_snow r k width height ss)"
proof (induction ss arbitrary: k)
  case Nil
  then show ?case by simp
next
  case (Cons fl ss)
  have "advanced r width height fl
          (fl\<lparr>s_y := s_y fl + s_speed fl, s_x := s_x fl + s_wind fl\<rparr>)"
    if "\<not> s_y fl + s_speed fl > height"
    using that by (simp add: advanced_def)
  moreover have "advanced r width height fl
          (fl\<lparr>s_y := - 10, s_x := r k * width\<rparr>)"
    if "s_y fl + s_speed fl > height"
    using that by (auto simp add: advanced_def)
  ultimately show ?case
    using Cons.IH by (simp add: Let_def)
qed

lemma advanced_below:
  "advanced r width height fl fl' \<Longrightarrow> 0 \<le> height \<Longrightarrow> s_y fl' \<le> height"
  by (auto simp add: advanced_def split: if_splits)

lemma advanced_ok: "advanced r width height fl fl' \<Longrightarrow> flake_ok fl \<Longrightarrow> flake_ok fl'"
  by (simp add: advanced_def flake_ok_def)

lemma falling_snow_ok:
  "list_all flake_ok ss \<Longrightarrow> list_all flake_ok (falling_snow r k width height ss)"
  by (induction ss arbitrary: k) (simp_all add: Let_def flake_ok_def)

lemma falling_snow_length: "length (falling_snow r k width height ss) = length ss"
  by (induction ss arbitrary: k) (simp_all add: Let_def)

lemma animate_snow_inv: "snow_inv s \<Longrightarrow> snow_inv (fst (animate env s))"
  by (simp add: snow_inv_def animate_snowflakes falling_snow_length falling_snow_ok)

lemma step_snow_inv: "snow_inv s \<Longrightarrow> snow_inv (step e s)"
proof (cases e)
  case (Refresh env)
  assume "snow_inv s"
  then have "snow_inv (s\<lparr>rafPending := False\<rparr>)"
    by (simp add: snow_inv_def)
  then have "snow_inv (fst (animate env (s\<lparr>rafPending := False\<rparr>)))"
    by (rule animate_snow_inv)
  with \<open>snow_inv s\<close> Refresh show ?thesis
    by simp
qed (simp_all add: snow_inv_def hands_keeps face_keeps handleKeyDown_def handleKeyUp_def
       resize_keeps animate_effect_def)

lemma run_snow_inv: "snow_inv s \<Longrightarrow> snow_inv (run evs s)"
  by (induction evs arbitrary: s) (simp_all add: step_snow_inv del: step.simps)

lemma init_snow_ok:
  assumes "\<forall>k. 0 \<le> r k \<and> r k < 1"
  shows "length (init_snow r) = 60 \<and> list_all flake_ok (init_snow r)"
proof -
  have "flake_ok \<lparr>s_x = r (6 * i) * 1920, s_y = r (6 * i + 1) * 1080,
               s_size = 1 + r (6 * i + 2) * 3, s_speed = 0.5 + r (6 * i + 3) * 1.5,
               s_opacity = 0.2 + r (6 * i + 4) * 0.5,
               s_wind = (r (6 * i + 5) - 0.5) * 0.5\<rparr>" for i
    using assms [rule_format, of "6 * i + 2"] assms [rule_format, of "6 * i + 3"]
      assms [rule_format, of "6 * i + 4"] assms [rule_format, of "6 * i + 5"]
    by (simp add: flake_ok_def)
  then show ?thesis
    by (simp add: init_snow_def SNOW_COUNT_def list_all_iff)
qed

lemma mount_snow_inv:
  "\<forall>k. 0 \<le> r k \<and> r k < 1 \<Longrightarrow> snow_inv (mount r symmetry c f w h)"
  by (simp add: snow_inv_def mount_def animate_effect_def resize_keeps init_snow_ok)

lemma snow_count: "length (snowflakes (run evs (mount r symmetry c f w h))) = 60"
proof -
  have "length (snowflakes (run evs s)) = length (snowflakes s)" for s
  proof (induction evs arbitrary: s)
    case Nil
    then show ?case by simp
  next
    case (Cons e evs)
    have "length (snowflakes (step e s)) = length (snowflakes s)"
      by (cases e)
         (simp_all add: hands_keeps face_keeps handleKeyDown_def handleKeyUp_def
            resize_keeps animate_effect_def animate_snowflakes falling_snow_length)
    with Cons.IH [of "step e s"] show ?case
      by (simp del: step.simps)
  qed
  then show ?thesis
    by (simp add: mount_def animate_effect_def resize_keeps init_snow_def SNOW_COUNT_def)
qed

lemma hand_wiping_timer:
  "handPresenceTime (fst (hand_wiping env w h s)) =
     (case indexTipPos s of None \<Rightarrow> handPresenceTime s | Some tip \<Rightarrow> timer_start env s)"
  by (simp add: hand_wiping_def timer_start_def Let_def split: option.split)

lemma hand_wiping_smoothed:
  "smoothedIndexTip (fst (hand_wiping env w h s)) =
     (case indexTipPos s of
        None \<Rightarrow> None
      | Some tip \<Rightarrow>
          if nowElapsed env - timer_start env s > 1000
          then Some (case smoothedIndexTip s of
                       None \<Rightarrow> \<lparr>pt_x = (1 - pt_x tip) * w, pt_y = pt_y tip * h\<rparr>
                     | Some p \<Rightarrow>
                         smooth \<lparr>pt_x = (1 - pt_x tip) * w, pt_y = pt_y tip * h\<rparr> p)
          else smoothedIndexTip s)"
  by (simp add: hand_wiping_def timer_start_def Let_def WIPE_DELAY_MS_def split: option.split)

lemma hand_wiping_gate:
  "(snd (hand_wiping env w h s) \<noteq> []) =
     (indexTipPos s \<noteq> None \<and> nowElapsed env - timer_start env s > 1000)"
  by (simp add: hand_wiping_def timer_start_def Let_def WIPE_DELAY_MS_def split: option.split)

lemma animate_gate:
  "(erases (fog_ops (snd (animate env s))) \<noteq> []) =
     (available env \<and> indexTipPos s \<noteq> None \<and> nowElapsed env - timer_start env s > 1000)"
proof (cases "available env")
  case True
  then show ?thesis
    by (simp add: animate_erases hand_wiping_gate)
next
  case False
  then show ?thesis
    by (simp add: animate_unavailable erases_def)
qed

lemma animate_timer_start:
  "handPresenceTime (fst (animate env s)) =
     (if available env \<and> indexTipPos s \<noteq> None then timer_start env s else handPresenceTime s)"
proof (cases "available env")
  case True
  then show ?thesis
    by (simp add: animate_timer hand_wiping_timer split: option.split)
next
  case False
  then show ?thesis
    by (simp add: animate_unavailable)
qed

lemma animate_smoothing:
  "smoothedIndexTip (fst (animate env s)) =
     (if available env then smoothedIndexTip (fst (hand_wiping env (real (canvasW s)) (real (canvasH s)) s))
      else smoothedIndexTip s)"
  by (simp add: animate_smoothed animate_unavailable)

lemma hands_seen_keeps:
  "\<not> hand_lost (HandsResults r) \<Longrightarrow> handPresenceTime (snd (hands_onResults r s)) = handPresenceTime s"
  "\<not> hand_lost (HandsResults r) \<Longrightarrow> indexTipPos s \<noteq> None \<Longrightarrow> indexTipPos (snd (hands_onResults r s)) \<noteq> None"
proof -
  assume seen: "\<not> hand_lost (HandsResults r)"
  then obtain l ls where r: "r = Some (l # ls)"
    by (cases r; cases "the r") auto
  show "handPresenceTime (snd (hands_onResults r s)) = handPresenceTime s"
    by (simp add: r hands_onResults_def Let_def split: option.split)
  show "indexTipPos (snd (hands_onResults r s)) \<noteq> None" if "indexTipPos s \<noteq> None"
    using that by (simp add: r hands_onResults_def Let_def split: option.split)
qed

lemma hands_timer:
  "handPresenceTime (snd (hands_onResults r s)) = 0 \<or>
   handPresenceTime (snd (hands_onResults r s)) = handPresenceTime s"
  by (simp add: hands_onResults_def Let_def split: option.split list.split)

lemma hands_lost:
  "hands_onResults None s =
     (None, s\<lparr>handDetected := False, peaceDetected := False, indexTipPos := None,
               handPresenceTime := 0\<rparr>)"
  "hands_onResults (Some []) s =
     (None, s\<lparr>handDetected := False, peaceDetected := False, indexTipPos := None,
               handPresenceTime := 0\<rparr>)"
  by (simp_all add: hands_onResults_def)

lemma step_present:
  assumes "\<not> hand_lost e" "indexTipPos s \<noteq> None" "handPresenceTime s = T" "T \<noteq> 0"
  shows "indexTipPos (step e s) \<noteq> None \<and> handPresenceTime (step e s) = T"
proof (cases e)
  case (HandsResults r)
  with assms(1) have seen: "\<not> hand_lost (HandsResults r)"
    by simp
  from hands_seen_keeps(1) [OF seen, of s] hands_seen_keeps(2) [OF seen assms(2)] assms(2,3)
  show ?thesis
    by (simp add: HandsResults del: not_None_eq)
qed (use assms in \<open>simp_all add: face_keeps handleKeyDown_def handleKeyUp_def resize_keeps
       animate_effect_def animate_keeps animate_timer_start timer_start_def del: not_None_eq\<close>)

lemma run_present:
  assumes "\<forall>e\<in>set evs. \<not> hand_lost e" "indexTipPos s \<noteq> None" "handPresenceTime s = T" "T \<noteq> 0"
  shows "indexTipPos (run evs s) \<noteq> None \<and> handPresenceTime (run evs s) = T"
  using assms
proof (induction evs arbitrary: s)
  case Nil
  then show ?case by simp
next
  case (Cons e evs)
  from Cons.prems have "\<not> hand_lost e" and rest: "\<forall>e\<in>set evs. \<not> hand_lost e"
    by simp_all
  from step_present [OF this(1) Cons.prems(2,3,4)]
  have "indexTipPos (step e s) \<noteq> None" "handPresenceTime (step e s) = T"
    by simp_all
  from Cons.IH [OF rest this \<open>T \<noteq> 0\<close>] show ?case
    by (simp del: step.simps)
qed

lemma step_after_gap:
  assumes "clock_from g e" "handPresenceTime s = 0 \<or> g \<le> handPresenceTime s"
  shows "handPresenceTime (step e s) = 0 \<or> g \<le> handPresenceTime (step e s)"
proof (cases e)
  case (HandsResults r)
  with assms(2) hands_timer [of r s] show ?thesis
    by auto
next
  case (Refresh env)
  with assms show ?thesis
    by (auto simp add: animate_timer_start timer_start_def)
qed (use assms in \<open>simp_all add: face_keeps handleKeyDown_def handleKeyUp_def resize_keeps
       animate_effect_def\<close>)

lemma run_after_gap:
  assumes "\<forall>e\<in>set evs. clock_from g e" "handPresenceTime s = 0 \<or> g \<le> handPresenceTime s"
  shows "handPresenceTime (run evs s) = 0 \<or> g \<le> handPresenceTime (run evs s)"
  using assms
proof (induction evs arbitrary: s)
  case Nil
  then show ?case by simp
next
  case (Cons e evs)
  from Cons.prems have "clock_from g e" and rest: "\<forall>e\<in>set evs. clock_from g e"
    by simp_all
  from Cons.IH [OF rest step_after_gap [OF this(1) Cons.prems(2)]] show ?case
    by (simp del: step.simps)
qed

lemma smooth_step:
  "pt_x (smooth t q) - pt_x t = 0.85 * (pt_x q - pt_x t)"
  "pt_y (smooth t q) - pt_y t = 0.85 * (pt_y q - pt_y t)"
  by (simp_all add: smooth_def SMOOTHING_FACTOR_def field_simps)

lemma smooth_iter:
  "pt_x ((smooth t ^^ n) p) - pt_x t = 0.85 ^ n * (pt_x p - pt_x t)
   \<and> pt_y ((smooth t ^^ n) p) - pt_y t = 0.85 ^ n * (pt_y p - pt_y t)"
  by (induction n) (simp_all add: smooth_step)

lemma decay_29: "29 \<le> n \<Longrightarrow> (0.85::real) ^ n \<le> 0.01"
proof -
  assume "29 \<le> n"
  then have "(0.85::real) ^ n \<le> 0.85 ^ 29"
    by (intro power_decreasing) simp_all
  also have "(0.85::real) ^ 29 \<le> 0.01"
    by (simp add: power_divide)
  finally show ?thesis .
qed

lemma smooth_within:
  assumes "29 \<le> n"
  shows "\<bar>pt_x ((smooth t ^^ n) p) - pt_x t\<bar> \<le> 0.01 * \<bar>pt_x p - pt_x t\<bar>"
    and "\<bar>pt_y ((smooth t ^^ n) p) - pt_y t\<bar> \<le> 0.01 * \<bar>pt_y p - pt_y t\<bar>"
proof -
  have "\<bar>pt_x ((smooth t ^^ n) p) - pt_x t\<bar> = 0.85 ^ n * \<bar>pt_x p - pt_x t\<bar>"
    by (simp add: smooth_iter abs_mult)
  also have "\<dots> \<le> 0.01 * \<bar>pt_x p - pt_x t\<bar>"
    by (intro mult_right_mono decay_29 assms) simp
  finally show "\<bar>pt_x ((smooth t ^^ n) p) - pt_x t\<bar> \<le> 0.01 * \<bar>pt_x p - pt_x t\<bar>" .
  have "\<bar>pt_y ((smooth t ^^ n) p) - pt_y t\<bar> = 0.85 ^ n * \<bar>pt_y p - pt_y t\<bar>"
    by (simp add: smooth_iter abs_mult)
  also have "\<dots> \<le> 0.01 * \<bar>pt_y p - pt_y t\<bar>"
    by (intro mult_right_mono decay_29 assms) simp
  finally show "\<bar>pt_y ((smooth t ^^ n) p) - pt_y t\<bar> \<le> 0.01 * \<bar>pt_y p - pt_y t\<bar>" .
qed

lemma step_active:
  assumes "mounted s" "rafPending s" "indexTipPos s = Some tip" "handPresenceTime s = T" "T \<noteq> 0"
    "smoothedIndexTip s = Some p" "available env" "nowElapsed env - T > 1000"
  shows "mounted (step (Refresh env) s)" "rafPending (step (Refresh env) s)"
    "indexTipPos (step (Refresh env) s) = Some tip" "handPresenceTime (step (Refresh env) s) = T"
    "canvasW (step (Refresh env) s) = canvasW s" "canvasH (step (Refresh env) s) = canvasH s"
    "smoothedIndexTip (step (Refresh env) s) =
       Some (smooth \<lparr>pt_x = (1 - pt_x tip) * real (canvasW s), pt_y = pt_y tip * real (canvasH s)\<rparr> p)"
  using assms
  by (simp_all add: animate_keeps animate_timer_start animate_smoothing hand_wiping_smoothed
      timer_start_def)
     (simp add: animate_def available_def Let_def case_prod_beta)

lemma run_active:
  assumes "mounted s" "rafPending s" "indexTipPos s = Some tip" "handPresenceTime s = T" "T \<noteq> 0"
    "smoothedIndexTip s = Some p" "\<forall>e\<in>set envs. available e \<and> nowElapsed e - T > 1000"
  shows "smoothedIndexTip (run (map Refresh envs) s) =
       Some ((smooth \<lparr>pt_x = (1 - pt_x tip) * real (canvasW s),
                       pt_y = pt_y tip * real (canvasH s)\<rparr> ^^ length envs) p)"
  using assms
proof (induction envs arbitrary: s p)
  case Nil
  then show ?case by simp
next
  case (Cons env envs)
  from Cons.prems(7) have env: "available env" "nowElapsed env - T > 1000"
    and rest: "\<forall>e\<in>set envs. available e \<and> nowElapsed e - T > 1000"
    by simp_all
  note nxt = step_active [OF Cons.prems(1-6) env]
  from Cons.IH [OF nxt(1-4) Cons.prems(5) nxt(7) rest] show ?case
    by (simp add: nxt(5,6) funpow_swap1 del: step.simps)
qed

section \<open>The example inputs, evaluated\<close>

lemma example_face_lips:
  "length example_face = 15"
  "example_face ! 13 = \<lparr>pt_x = 1 / 2, pt_y = 1 / 2\<rparr>"
  "example_face ! 14 = \<lparr>pt_x = 1 / 2, pt_y = 27 / 50\<rparr>"
  by (simp_all add: example_face_def nth_append)

lemma example_lip_dist:
  "lip_dist \<lparr>pt_x = 1 / 2, pt_y = 1 / 2\<rparr> \<lparr>pt_x = 1 / 2, pt_y = 27 / 50\<rparr> = 1 / 25"
proof -
  have "(1 / 2 - 1 / 2)\<^sup>2 + (1 / 2 - 27 / 50)\<^sup>2 = ((1 / 25::real))\<^sup>2"
    by (simp add: power2_eq_square)
  then show ?thesis
    by (simp add: lip_dist_def)
qed

lemma example_intensity: "intensity (1 / 25) = 9 / 20" "intensity (2 / 25) = 1"
  by (simp_all add: intensity_def)

lemma example_mount_fields:
  "mounted example_mount" "rafPending example_mount"
  "canvasW example_mount = 800" "canvasH example_mount = 600"
  "breathIntensity example_mount = 0" "mouthPos example_mount = \<lparr>pt_x = 0.5, pt_y = 0.5\<rparr>"
  "isBreathingManual example_mount = False" "isSymmetry example_mount = False"
  "indexTipPos example_mount = None" "handPresenceTime example_mount = 0"
  "smoothedIndexTip example_mount = None"
  by (simp_all add: example_mount_def mount_def animate_effect_def resize_def initial_def)

lemma example_env_fields:
  "available example_env" "nowStart example_env = 5000" "nowElapsed example_env = 5000"
  by (simp_all add: example_env_def available_def)

lemma example_breath:
  "faceMesh_onResults (Some [example_face]) example_mount =
     (None, example_mount\<lparr>breathIntensity := 9 / 20, mouthPos := \<lparr>pt_x = 1 / 2, pt_y = 13 / 25\<rparr>\<rparr>)"
  by (simp add: faceMesh_face example_face_lips example_lip_dist example_intensity)

lemma example_hand_landmarks:
  "length example_hand = 21"
  "example_hand ! 8 = \<lparr>pt_x = 1 / 5, pt_y = 1 / 2\<rparr>"
  "example_hand ! 6 = \<lparr>pt_x = 1 / 2, pt_y = 3 / 5\<rparr>"
  "example_hand ! 12 = \<lparr>pt_x = 1 / 2, pt_y = 3 / 5\<rparr>"
  "example_hand ! 10 = \<lparr>pt_x = 1 / 2, pt_y = 3 / 5\<rparr>"
  by (simp_all add: example_hand_def nth_append)

lemma example_hand_seen:
  "hands_onResults (Some [example_hand]) s =
     (None, s\<lparr>handDetected := True, indexTipPos := Some \<lparr>pt_x = 1 / 5, pt_y = 1 / 2\<rparr>,
               peaceDetected := False\<rparr>)"
  by (simp add: hands_onResults_def landmark_at_def example_hand_landmarks Let_def)

lemma example_tracking_fields:
  "mounted example_tracking" "rafPending example_tracking"
  "canvasW example_tracking = 800" "canvasH example_tracking = 600"
  "isSymmetry example_tracking = False"
  "indexTipPos example_tracking = Some \<lparr>pt_x = 1 / 5, pt_y = 1 / 2\<rparr>"
  "handPresenceTime example_tracking = 5000"
  "smoothedIndexTip example_tracking = None"
  by (simp_all add: example_tracking_def example_hand_seen example_mount_fields
      example_env_def animate_def hand_wiping_def Let_def WIPE_DELAY_MS_def)

lemma example_wiping_fields:
  "mounted example_wiping" "rafPending example_wiping"
  "canvasW example_wiping = 1024" "canvasH example_wiping = 768"
  "indexTipPos example_wiping = Some \<lparr>pt_x = 1 / 5, pt_y = 1 / 2\<rparr>"
  "handPresenceTime example_wiping = 5000"
  "smoothedIndexTip example_wiping = Some \<lparr>pt_x = 640, pt_y = 300\<rparr>"
  by (simp_all add: example_wiping_def example_tracking_fields resize_def
      example_env_def animate_def hand_wiping_def Let_def WIPE_DELAY_MS_def)

lemma example_gap_fields:
  "handPresenceTime example_gap = 0" "mounted example_gap" "rafPending example_gap"
  "indexTipPos example_gap = None" "canvasW example_gap = 800" "canvasH example_gap = 600"
  by (simp_all add: example_gap_def example_tracking_fields hands_lost)

lemma example_frames_active:
  "length example_frames = 29"
  "\<forall>e\<in>set example_frames. available e \<and> nowElapsed e - 5000 > 1000"
  by (simp_all add: example_frames_def example_env_def available_def)

lemma init_snow_first:
  "s_y (init_snow r ! 0) = r 1 * 1080"
  "s_speed (init_snow r ! 0) = 0.5 + r 3 * 1.5"
  "length (init_snow r) = 60"
  by (simp_all add: init_snow_def SNOW_COUNT_def)

lemma example_low_mount_fields:
  "canvasH example_low_mount = 600"
  "s_y (snowflakes example_low_mount ! 0) = 972"
  "s_speed (snowflakes example_low_mount ! 0) = 37 / 20"
  by (simp_all add: example_low_mount_def mount_def animate_effect_def resize_def init_snow_first)

lemma example_shrunk_fields:
  "canvasH example_shrunk = 600"
  "s_y (snowflakes example_shrunk ! 0) = 19477 / 20"
  "s_speed (snowflakes example_shrunk ! 0) = 37 / 20"
proof -
  let ?m = "mount (\<lambda>k. 9 / 10) False True True 1920 1080"
  have m: "mounted ?m" "rafPending ?m" "canvasW ?m = 1920" "canvasH ?m = 1080"
    "snowflakes ?m = init_snow (\<lambda>k. 9 / 10)"
    by (simp_all add: mount_def animate_effect_def resize_def)
  let ?a = "fst (animate example_env (?m\<lparr>rafPending := False\<rparr>))"
  have run: "example_shrunk = resize True True 800 600 ?a"
    by (simp add: example_shrunk_def m animate_keeps)
  show "canvasH example_shrunk = 600"
    by (simp add: run resize_def)
  have snow: "snowflakes example_shrunk =
      falling_snow (rnd example_env) 0 1920 1080 (init_snow (\<lambda>k. 9 / 10))"
    by (simp add: run resize_keeps animate_snowflakes example_env_fields m)
  from falling_snow_advanced [of "rnd example_env" 1920 1080 "init_snow (\<lambda>k. 9 / 10)" 0]
  have "advanced (rnd example_env) 1920 1080 (init_snow (\<lambda>k. 9 / 10) ! 0)
          (snowflakes example_shrunk ! 0)"
    unfolding snow by (rule list_all2_nthD) (simp add: init_snow_first)
  then show "s_y (snowflakes example_shrunk ! 0) = 19477 / 20"
    "s_speed (snowflakes example_shrunk ! 0) = 37 / 20"
    by (simp_all add: advanced_def init_snow_first)
qed

section \<open>Claims\<close>

text \<open>
  C1, as amended. The presence timer starts at the first render step that sees the
  fingertip while the timer is unset, and a render step that sees the fingertip erases
  exactly when the time elapsed since the start of the timer is strictly greater than
  1000 ms: never at 1000 ms or less, always above. As long as no hand result reports
  the hand absent, the timer keeps its start, whatever else happens. A hand result
  without a hand sets the timer to unset and the fingertip to absent at once, a render
  step without a fingertip erases nothing, and after such a gap, when every later
  render step reads the clock at \<open>g\<close> or later, every erase happens later than
  \<open>g + 1000\<close> ms.
\<close>

theorem wipe_gating:
  "(available env \<and> indexTipPos s \<noteq> None \<longrightarrow>
      (erases (fog_ops (snd (animate env s))) \<noteq> []) =
        (nowElapsed env - (if handPresenceTime s = 0 then nowStart env else handPresenceTime s)
           > 1000)
      \<and> handPresenceTime (fst (animate env s)) =
          (if handPresenceTime s = 0 then nowStart env else handPresenceTime s))
   \<and> (indexTipPos s \<noteq> None \<and> handPresenceTime s = T \<and> T \<noteq> 0
        \<and> (\<forall>e\<in>set evs. \<not> hand_lost e) \<and> available env \<longrightarrow>
      (erases (fog_ops (snd (animate env (run evs s)))) \<noteq> []) = (nowElapsed env - T > 1000))
   \<and> handPresenceTime (snd (hands_onResults None s)) = 0
   \<and> indexTipPos (snd (hands_onResults None s)) = None
   \<and> handPresenceTime (snd (hands_onResults (Some []) s)) = 0
   \<and> indexTipPos (snd (hands_onResults (Some []) s)) = None
   \<and> (indexTipPos s = None \<longrightarrow> erases (fog_ops (snd (animate env s))) = [])
   \<and> (handPresenceTime s = 0 \<and> (\<forall>e\<in>set evs. clock_from g e) \<and> g \<le> nowStart env
        \<and> erases (fog_ops (snd (animate env (run evs s)))) \<noteq> [] \<longrightarrow>
      nowElapsed env > g + 1000)"
proof -
  have frame: "available env \<and> indexTipPos s \<noteq> None \<longrightarrow>
      (erases (fog_ops (snd (animate env s))) \<noteq> []) =
        (nowElapsed env - (if handPresenceTime s = 0 then nowStart env else handPresenceTime s)
           > 1000)
      \<and> handPresenceTime (fst (animate env s)) =
          (if handPresenceTime s = 0 then nowStart env else handPresenceTime s)"
    by (simp add: animate_gate animate_timer_start timer_start_def)
  have present: "(erases (fog_ops (snd (animate env (run evs s)))) \<noteq> []) = (nowElapsed env - T > 1000)"
    if "indexTipPos s \<noteq> None" "handPresenceTime s = T" "T \<noteq> 0"
      "\<forall>e\<in>set evs. \<not> hand_lost e" "available env"
    using run_present [OF that(4) that(1,2,3)] that(3,5)
    by (simp add: animate_gate timer_start_def)
  have absent: "indexTipPos s = None \<longrightarrow> erases (fog_ops (snd (animate env s))) = []"
    using animate_gate [of env s] by auto
  have gap: "nowElapsed env > g + 1000"
    if "handPresenceTime s = 0" "\<forall>e\<in>set evs. clock_from g e" "g \<le> nowStart env"
      "erases (fog_ops (snd (animate env (run evs s)))) \<noteq> []"
  proof -
    from that(1) have "handPresenceTime s = 0 \<or> g \<le> handPresenceTime s"
      by simp
    from run_after_gap [OF that(2) this] that(3)
    have "g \<le> timer_start env (run evs s)"
      by (auto simp add: timer_start_def)
    moreover from that(4) have "nowElapsed env - timer_start env (run evs s) > 1000"
      by (simp add: animate_gate)
    ultimately show ?thesis
      by simp
  qed
  from frame present absent gap show ?thesis
    by (simp add: hands_lost)
qed

theorem wipe_gating_witness:
  "erases (fog_ops (snd (animate (example_env\<lparr>nowElapsed := 7000\<rparr>)
      (run [Refresh (example_env\<lparr>nowStart := 5500, nowElapsed := 5500\<rparr>)] example_tracking))))
     \<noteq> []
   \<and> erases (fog_ops (snd (animate (example_env\<lparr>nowElapsed := 5900\<rparr>)
      (run [Refresh (example_env\<lparr>nowStart := 5500, nowElapsed := 5500\<rparr>)] example_tracking))))
     = []
   \<and> handPresenceTime (fst (animate example_env
        (run [HandsResults (Some [example_hand])] example_mount))) = 5000
   \<and> erases (fog_ops (snd (animate example_env example_gap))) = []
   \<and> erases (fog_ops (snd (animate (example_env\<lparr>nowStart := 7500, nowElapsed := 7500\<rparr>)
        (run [HandsResults (Some [example_hand]),
              Refresh (example_env\<lparr>nowStart := 6000, nowElapsed := 6000\<rparr>)]
           example_gap)))) \<noteq> []
   \<and> nowElapsed (example_env\<lparr>nowStart := 7500, nowElapsed := 7500\<rparr>) > 6000 + 1000"
proof -
  let ?late = "example_env\<lparr>nowStart := 7500, nowElapsed := 7500\<rparr>"
  let ?regained = "[HandsResults (Some [example_hand]),
                Refresh (example_env\<lparr>nowStart := 6000, nowElapsed := 6000\<rparr>)]"
  let ?gap = "example_gap"
  note gap = example_gap_fields
  have fired: "erases (fog_ops (snd (animate ?late (run ?regained ?gap)))) \<noteq> []"
    by (simp add: gap example_hand_seen example_env_def available_def animate_gate
        animate_timer_start animate_keeps timer_start_def)
  have clocks: "\<forall>e\<in>set ?regained. clock_from 6000 e"
    by (simp add: example_env_def)
  have "nowElapsed ?late > 6000 + 1000"
    using wipe_gating [where env = ?late and evs = ?regained and s = ?gap and g = 6000]
      gap(1) clocks fired
    by (simp add: example_env_def)
  moreover have
    "erases (fog_ops (snd (animate (example_env\<lparr>nowElapsed := 7000\<rparr>)
        (run [Refresh (example_env\<lparr>nowStart := 5500, nowElapsed := 5500\<rparr>)] example_tracking))))
       \<noteq> []"
    "erases (fog_ops (snd (animate (example_env\<lparr>nowElapsed := 5900\<rparr>)
        (run [Refresh (example_env\<lparr>nowStart := 5500, nowElapsed := 5500\<rparr>)] example_tracking))))
       = []"
    using wipe_gating [of "example_env\<lparr>nowElapsed := 7000\<rparr>" example_tracking 5000
        "[Refresh (example_env\<lparr>nowStart := 5500, nowElapsed := 5500\<rparr>)]"]
      wipe_gating [of "example_env\<lparr>nowElapsed := 5900\<rparr>" example_tracking 5000
        "[Refresh (example_env\<lparr>nowStart := 5500, nowElapsed := 5500\<rparr>)]"]
    by (simp_all add: example_tracking_fields example_env_def available_def del: step.simps run.simps)
  moreover have "handPresenceTime (fst (animate example_env
        (run [HandsResults (Some [example_hand])] example_mount))) = 5000"
    using wipe_gating [of example_env "run [HandsResults (Some [example_hand])] example_mount"]
    by (simp add: example_mount_fields example_hand_seen example_env_def available_def)
  moreover have "erases (fog_ops (snd (animate example_env example_gap))) = []"
    using wipe_gating [where env = example_env and s = example_gap]
    by (simp add: example_gap_fields)
  ultimately show ?thesis
    using fired by simp
qed

text \<open>
  C1 as stated fails at the threshold itself: the fingertip is seen and the timer
  starts at 5000 ms; the render step at 6000 ms, after exactly 1000 ms of continuous
  presence, erases nothing.
\<close>

theorem wipe_gating_counterexample:
  "example_tracking = run [HandsResults (Some [example_hand]), Refresh example_env] example_mount
   \<and> nowStart example_env = 5000
   \<and> indexTipPos example_tracking \<noteq> None
   \<and> handPresenceTime example_tracking = 5000
   \<and> available (example_env\<lparr>nowElapsed := 6000\<rparr>)
   \<and> nowElapsed (example_env\<lparr>nowElapsed := 6000\<rparr>) - handPresenceTime example_tracking \<ge> 1000
   \<and> erases (fog_ops (snd (animate (example_env\<lparr>nowElapsed := 6000\<rparr>) example_tracking))) = []"
  by (simp add: example_tracking_fields animate_erases hand_wiping_def Let_def WIPE_DELAY_MS_def
      available_def example_env_def)
     (simp add: example_tracking_def example_env_def)

text \<open>
  C2. In a render step that passes its guards, a frost deposit is made on the fog
  surface if and only if the effective intensity
  \<open>max(breathIntensity, manual ? 0.8 : 0)\<close> exceeds 0.1. There is then exactly one:
  a source-over fill centred at the mirrored mouth point
  \<open>((1 - x) * width, y * height)\<close>, of radius \<open>100 + intensity * 150\<close> and of
  alpha \<open>intensity * 0.04\<close> at the centre, and it is added to the fog surface.
\<close>

theorem fog_deposit:
  "available env \<longrightarrow>
     (let e = max (breathIntensity s) (if isBreathingManual s then 0.8 else 0);
          x = (1 - pt_x (mouthPos s)) * real (canvasW s);
          y = pt_y (mouthPos s) * real (canvasH s);
          radius = 100 + e * 150
      in deposits (fog_ops (snd (animate env s))) =
           (if e > 0.1
            then [FillArc SourceOver
                    (RadialGradient x y 0 x y radius
                       [(0, (200, 220, 240, e * 0.04)),
                        (0.6, (200, 220, 240, e * 0.04 * 0.4)),
                        (1, (200, 220, 240, 0))])
                    x y radius]
            else [])
         \<and> fog (fst (animate env s)) = fog s @ fog_ops (snd (animate env s)))"
  by (simp add: animate_deposits animate_fog fog_accumulation_def effectiveIntensity_def Let_def)

theorem fog_deposit_witness:
  "available example_env
   \<and> deposits (fog_ops (snd (animate example_env
        (run [FaceResults (Some [example_face])] example_mount)))) =
       [FillArc SourceOver
          (RadialGradient 400 312 0 400 312 (335 / 2)
             [(0, (200, 220, 240, 9 / 500)), (3 / 5, (200, 220, 240, 9 / 1250)), (1, (200, 220, 240, 0))])
          400 312 (335 / 2)]"
  using fog_deposit [of example_env "run [FaceResults (Some [example_face])] example_mount"]
  by (simp add: example_mount_fields example_env_fields example_breath Let_def)

text \<open>
  C3, as amended. A render step schedules the next one exactly when it passes its
  guards (canvas, video source and both 2D contexts there). A step that does not pass
  them draws nothing, changes nothing and schedules nothing; a display refresh with no
  callback pending changes nothing.
\<close>

theorem render_step_scheduling:
  "scheduled (snd (animate env s)) = available env
   \<and> (\<not> available env \<longrightarrow>
        animate env s = (s, \<lparr>main_ops = [], fog_ops = [], scheduled = False\<rparr>))
   \<and> (available env \<longrightarrow> rafPending (fst (animate env s)))
   \<and> (mounted s \<and> rafPending s \<longrightarrow> rafPending (step (Refresh env) s) = available env)
   \<and> (mounted s \<and> \<not> rafPending s \<longrightarrow> step (Refresh env) s = s)"
proof (cases "available env")
  case True
  then show ?thesis
    by (simp add: animate_def available_def Let_def split: prod.split)
next
  case False
  then show ?thesis
    by (simp add: animate_unavailable)
qed

theorem render_step_scheduling_witness:
  "scheduled (snd (animate example_env example_mount))
   \<and> rafPending (step (Refresh example_env) example_mount)
   \<and> animate (example_env\<lparr>fCtxAvail := False\<rparr>) example_mount =
       (example_mount, \<lparr>main_ops = [], fog_ops = [], scheduled = False\<rparr>)
   \<and> step (Refresh example_env) (example_mount\<lparr>rafPending := False\<rparr>) =
       example_mount\<lparr>rafPending := False\<rparr>"
  using render_step_scheduling [of example_env example_mount]
    render_step_scheduling [of "example_env\<lparr>fCtxAvail := False\<rparr>" example_mount]
    render_step_scheduling [of example_env "example_mount\<lparr>rafPending := False\<rparr>"]
  by (simp add: example_mount_fields example_env_def available_def)

text \<open>
  C3 as stated fails: on a mounted component with a callback pending, a render step that
  finds no 2D context schedules nothing, and the display refresh after it renders
  nothing.
\<close>

theorem render_step_unconditional_counterexample:
  "mounted example_mount
   \<and> rafPending example_mount
   \<and> \<not> scheduled (snd (animate (example_env\<lparr>ctxAvail := False\<rparr>) example_mount))
   \<and> \<not> rafPending (step (Refresh (example_env\<lparr>ctxAvail := False\<rparr>)) example_mount)
   \<and> run [Refresh (example_env\<lparr>ctxAvail := False\<rparr>), Refresh example_env] example_mount =
       example_mount\<lparr>rafPending := False\<rparr>"
  by (simp add: example_mount_fields animate_def example_env_def)

text \<open>
  C4. In a render step that erases (fingertip seen, more than 1000 ms on the timer),
  the smoothed fingertip becomes the target, the mirrored pixel position of the
  fingertip, when it was absent, and otherwise moves by 0.15 of its distance to the
  target in each coordinate. A render step that sees no fingertip sets the smoothed
  fingertip to absent. Over 29 or more consecutive erasing render steps with the same
  fingertip and canvas size, the distance of the smoothed fingertip to the target falls,
  in each coordinate, to at most 1 percent of what it was (0.85 to the power 29 is below
  0.01).
\<close>

theorem fingertip_smoothing:
  "(available env \<and> indexTipPos s = Some tip
      \<and> nowElapsed env - (if handPresenceTime s = 0 then nowStart env else handPresenceTime s)
          > 1000 \<longrightarrow>
      smoothedIndexTip (fst (animate env s)) =
        Some (case smoothedIndexTip s of
                None \<Rightarrow> \<lparr>pt_x = (1 - pt_x tip) * real (canvasW s),
                          pt_y = pt_y tip * real (canvasH s)\<rparr>
              | Some p \<Rightarrow>
                  \<lparr>pt_x = pt_x p + ((1 - pt_x tip) * real (canvasW s) - pt_x p) * 0.15,
                   pt_y = pt_y p + (pt_y tip * real (canvasH s) - pt_y p) * 0.15\<rparr>))
   \<and> (available env \<and> indexTipPos s = None \<longrightarrow> smoothedIndexTip (fst (animate env s)) = None)
   \<and> (mounted s \<and> rafPending s \<and> indexTipPos s = Some tip \<and> handPresenceTime s = T \<and> T \<noteq> 0
        \<and> smoothedIndexTip s = Some p0
        \<and> (\<forall>e\<in>set envs. available e \<and> nowElapsed e - T > 1000)
        \<and> 29 \<le> length envs \<longrightarrow>
      (case smoothedIndexTip (run (map Refresh envs) s) of
         None \<Rightarrow> False
       | Some p \<Rightarrow>
           \<bar>pt_x p - (1 - pt_x tip) * real (canvasW s)\<bar>
             \<le> 0.01 * \<bar>pt_x p0 - (1 - pt_x tip) * real (canvasW s)\<bar>
           \<and> \<bar>pt_y p - pt_y tip * real (canvasH s)\<bar>
             \<le> 0.01 * \<bar>pt_y p0 - pt_y tip * real (canvasH s)\<bar>))"
proof -
  have update: "available env \<and> indexTipPos s = Some tip
      \<and> nowElapsed env - (if handPresenceTime s = 0 then nowStart env else handPresenceTime s)
          > 1000 \<longrightarrow>
      smoothedIndexTip (fst (animate env s)) =
        Some (case smoothedIndexTip s of
                None \<Rightarrow> \<lparr>pt_x = (1 - pt_x tip) * real (canvasW s),
                          pt_y = pt_y tip * real (canvasH s)\<rparr>
              | Some p \<Rightarrow>
                  \<lparr>pt_x = pt_x p + ((1 - pt_x tip) * real (canvasW s) - pt_x p) * 0.15,
                   pt_y = pt_y p + (pt_y tip * real (canvasH s) - pt_y p) * 0.15\<rparr>)"
    by (simp add: animate_smoothing hand_wiping_smoothed timer_start_def smooth_def
        SMOOTHING_FACTOR_def split: option.split)
  have absent: "available env \<and> indexTipPos s = None \<longrightarrow>
      smoothedIndexTip (fst (animate env s)) = None"
    by (simp add: animate_smoothing hand_wiping_smoothed)
  have converge: "case smoothedIndexTip (run (map Refresh envs) s) of
         None \<Rightarrow> False
       | Some p \<Rightarrow>
           \<bar>pt_x p - (1 - pt_x tip) * real (canvasW s)\<bar>
             \<le> 0.01 * \<bar>pt_x p0 - (1 - pt_x tip) * real (canvasW s)\<bar>
           \<and> \<bar>pt_y p - pt_y tip * real (canvasH s)\<bar>
             \<le> 0.01 * \<bar>pt_y p0 - pt_y tip * real (canvasH s)\<bar>"
    if "mounted s" "rafPending s" "indexTipPos s = Some tip" "handPresenceTime s = T" "T \<noteq> 0"
      "smoothedIndexTip s = Some p0" "\<forall>e\<in>set envs. available e \<and> nowElapsed e - T > 1000"
      "29 \<le> length envs"
    using smooth_within [OF that(8),
        of "\<lparr>pt_x = (1 - pt_x tip) * real (canvasW s), pt_y = pt_y tip * real (canvasH s)\<rparr>" p0]
    by (simp add: run_active [OF that(1-7)])
  from update absent converge show ?thesis
    by blast
qed

theorem fingertip_smoothing_witness:
  "smoothedIndexTip (fst (animate (example_env\<lparr>nowElapsed := 7000\<rparr>) example_tracking)) =
     Some \<lparr>pt_x = 640, pt_y = 300\<rparr>
   \<and> smoothedIndexTip (fst (animate (example_env\<lparr>nowElapsed := 8000\<rparr>) example_wiping)) =
       Some \<lparr>pt_x = 640 + (4096 / 5 - 640) * 0.15, pt_y = 300 + (384 - 300) * 0.15\<rparr>
   \<and> smoothedIndexTip (fst (animate example_env example_gap)) = None
   \<and> (case smoothedIndexTip (run (map Refresh example_frames) example_wiping) of
         None \<Rightarrow> False
       | Some p \<Rightarrow>
           \<bar>pt_x p - 4096 / 5\<bar> \<le> 0.01 * \<bar>640 - 4096 / 5\<bar>
           \<and> \<bar>pt_y p - 384\<bar> \<le> 0.01 * \<bar>300 - 384\<bar>)"
proof -
  have "case smoothedIndexTip (run (map Refresh example_frames) example_wiping) of
         None \<Rightarrow> False
       | Some p \<Rightarrow>
           \<bar>pt_x p - 4096 / 5\<bar> \<le> 0.01 * \<bar>640 - 4096 / 5\<bar>
           \<and> \<bar>pt_y p - 384\<bar> \<le> 0.01 * \<bar>300 - 384\<bar>"
    using fingertip_smoothing [where s = example_wiping and envs = example_frames and T = 5000
        and tip = "\<lparr>pt_x = 1 / 5, pt_y = 1 / 2\<rparr>" and ?p0.0 = "\<lparr>pt_x = 640, pt_y = 300\<rparr>"]
      example_frames_active
    by (simp add: example_wiping_fields cong: option.case_cong)
  moreover have
    "smoothedIndexTip (fst (animate (example_env\<lparr>nowElapsed := 7000\<rparr>) example_tracking)) =
       Some \<lparr>pt_x = 640, pt_y = 300\<rparr>"
    using fingertip_smoothing [where s = example_tracking
        and env = "example_env\<lparr>nowElapsed := 7000\<rparr>" and tip = "\<lparr>pt_x = 1 / 5, pt_y = 1 / 2\<rparr>"]
    by (simp add: example_tracking_fields example_env_def available_def)
  moreover have
    "smoothedIndexTip (fst (animate (example_env\<lparr>nowElapsed := 8000\<rparr>) example_wiping)) =
       Some \<lparr>pt_x = 640 + (4096 / 5 - 640) * 0.15, pt_y = 300 + (384 - 300) * 0.15\<rparr>"
    using fingertip_smoothing [where s = example_wiping
        and env = "example_env\<lparr>nowElapsed := 8000\<rparr>" and tip = "\<lparr>pt_x = 1 / 5, pt_y = 1 / 2\<rparr>"]
    by (simp add: example_wiping_fields example_env_def available_def)
  moreover have "smoothedIndexTip (fst (animate example_env example_gap)) = None"
    using fingertip_smoothing [where s = example_gap and env = example_env]
    by (simp add: example_gap_fields example_env_fields)
  ultimately show ?thesis
    by simp
qed

text \<open>
  C5. A face result with a face (landmarks 13 and 14 present) sets the breath intensity
  to \<open>clamp((d - 0.01) * 15, 0, 1)\<close>, \<open>d\<close> the Euclidean distance of landmarks 13
  and 14. The mapping is monotonically non-decreasing, is 0 at 0.01, 0.45 at 0.04 and 1
  from 0.077 on.
\<close>

theorem breath_intensity_mapping:
  "(15 \<le> length landmarks \<longrightarrow>
      fst (faceMesh_onResults (Some (landmarks # rest)) s) = None
      \<and> breathIntensity (snd (faceMesh_onResults (Some (landmarks # rest)) s)) =
          intensity (lip_dist (landmarks ! 13) (landmarks ! 14)))
   \<and> lip_dist p q = sqrt ((pt_x p - pt_x q)\<^sup>2 + (pt_y p - pt_y q)\<^sup>2)
   \<and> intensity d = min (max ((d - 0.01) * 15) 0) 1
   \<and> (d \<le> d' \<longrightarrow> intensity d \<le> intensity d')
   \<and> intensity 0.01 = 0
   \<and> intensity 0.04 = 0.45
   \<and> (0.077 \<le> d \<longrightarrow> intensity d = 1)"
proof -
  have "0.077 \<le> d \<longrightarrow> intensity d = 1"
    by (simp add: intensity_def min_def max_def)
  moreover have "intensity 0.01 = 0" "intensity 0.04 = 0.45"
    by (simp_all add: intensity_def)
  ultimately show ?thesis
    by (simp add: faceMesh_face intensity_mono lip_dist_def) (simp add: intensity_def)
qed

theorem breath_intensity_mapping_witness:
  "breathIntensity (snd (faceMesh_onResults (Some [example_face]) example_mount)) = 9 / 20
   \<and> fst (faceMesh_onResults (Some [example_face]) example_mount) = None
   \<and> intensity (1 / 25) \<le> intensity (2 / 25)
   \<and> intensity (2 / 25) = 1"
  using breath_intensity_mapping [of example_face "[]" example_mount _ _ "2 / 25" "2 / 25"]
    breath_intensity_mapping [of example_face "[]" example_mount _ _ "1 / 25" "2 / 25"]
  by (simp add: example_face_lips example_lip_dist example_intensity)

text \<open>
  C6. Whenever a render step erases, the smoothed fingertip \<open>p\<close> is set and the
  erases of the step are \<open>wipe\<close> at \<open>p\<close> alone when symmetry is off, and
  \<open>wipe\<close> at \<open>p\<close> followed by \<open>wipe\<close> at \<open>(width - x, y)\<close> when it is on.
  Both are the same fill: destination-out, radius 45, the gradient starting at radius 9.
\<close>

theorem symmetry_fan_out:
  "(erases (fog_ops (snd (animate env s))) \<noteq> [] \<longrightarrow>
     (case smoothedIndexTip (fst (animate env s)) of
        None \<Rightarrow> False
      | Some p \<Rightarrow>
          erases (fog_ops (snd (animate env s))) =
            (if isSymmetry s
             then [wipe (pt_x p) (pt_y p), wipe (real (canvasW s) - pt_x p) (pt_y p)]
             else [wipe (pt_x p) (pt_y p)])))
   \<and> wipe wx wy =
       FillArc DestinationOut
         (RadialGradient wx wy 9 wx wy 45 [(0, (0, 0, 0, 1)), (0.8, (0, 0, 0, 0.4)), (1, (0, 0, 0, 0))])
         wx wy 45"
proof (cases "available env")
  case True
  have "snd (hand_wiping env (real (canvasW s)) (real (canvasH s)) s) \<noteq> [] \<longrightarrow>
     (case smoothedIndexTip (fst (hand_wiping env (real (canvasW s)) (real (canvasH s)) s)) of
        None \<Rightarrow> False
      | Some p \<Rightarrow>
          snd (hand_wiping env (real (canvasW s)) (real (canvasH s)) s) =
            (if isSymmetry s
             then [wipe (pt_x p) (pt_y p), wipe (real (canvasW s) - pt_x p) (pt_y p)]
             else [wipe (pt_x p) (pt_y p)]))"
    by (simp add: hand_wiping_def Let_def split: option.split)
  then show ?thesis
    unfolding animate_erases [OF True] animate_smoothed [OF True]
    by (simp add: wipe_def)
next
  case False
  then show ?thesis
    by (simp add: animate_unavailable erases_def wipe_def)
qed

theorem symmetry_fan_out_witness:
  "erases (fog_ops (snd (animate (example_env\<lparr>nowElapsed := 7000\<rparr>)
       (step ToggleSymmetry example_tracking)))) =
     [wipe 640 300, wipe 160 300]
   \<and> smoothedIndexTip (fst (animate (example_env\<lparr>nowElapsed := 7000\<rparr>)
       (step ToggleSymmetry example_tracking))) = Some \<lparr>pt_x = 640, pt_y = 300\<rparr>"
  using symmetry_fan_out [of "example_env\<lparr>nowElapsed := 7000\<rparr>" "step ToggleSymmetry example_tracking"]
  by (simp add: example_tracking_fields example_env_def available_def animate_erases
      animate_smoothed hand_wiping_def Let_def WIPE_DELAY_MS_def)

text \<open>
  C7, as amended. Whatever happens after the mount, there are 60 flakes; when
  \<open>Math.random()\<close> returns values in [0, 1), every flake has a size between 0 and 4 and
  an opacity between 0.2 and 0.7. A render step that passes its guards advances every
  flake: size, speed, opacity and wind are unchanged; a flake whose new \<open>y\<close> would
  exceed the canvas height is put at \<open>y = -10\<close> with \<open>x\<close> a random fraction of the
  canvas width, any other flake moves by its speed and wind. The bound on \<open>y\<close> holds
  in the state right after such a step, against the canvas height of that step: there
  the \<open>y\<close> of every flake is at most the height, and so exceeds it by no more than the
  speed of the flake. It is not claimed before the first step or after a resize.
\<close>

theorem particle_invariants:
  "length (snowflakes (run evs (mount r symmetry c f w h))) = 60
   \<and> ((\<forall>k. 0 \<le> r k \<and> r k < 1) \<longrightarrow>
        list_all (\<lambda>fl. 0 \<le> s_size fl \<and> s_size fl \<le> 4 \<and> 0.2 \<le> s_opacity fl \<and> s_opacity fl \<le> 0.7)
          (snowflakes (run evs (mount r symmetry c f w h))))
   \<and> (available env \<longrightarrow>
        list_all2
          (\<lambda>fl fl'.
             s_size fl' = s_size fl \<and> s_speed fl' = s_speed fl \<and>
             s_opacity fl' = s_opacity fl \<and> s_wind fl' = s_wind fl \<and>
             (if s_y fl + s_speed fl > real (canvasH s)
              then s_y fl' = - 10 \<and> (\<exists>k. s_x fl' = rnd env k * real (canvasW s))
              else s_y fl' = s_y fl + s_speed fl \<and> s_x fl' = s_x fl + s_wind fl) \<and>
             s_y fl' \<le> real (canvasH s))
          (snowflakes s) (snowflakes (fst (animate env s))))
   \<and> ((\<forall>k. 0 \<le> r k \<and> r k < 1) \<and> available env \<longrightarrow>
        list_all (\<lambda>fl. s_y fl \<le> real (canvasH (run evs (mount r symmetry c f w h))) + s_speed fl)
          (snowflakes (fst (animate env (run evs (mount r symmetry c f w h))))))"
proof -
  have bounds: "list_all (\<lambda>fl. 0 \<le> s_size fl \<and> s_size fl \<le> 4 \<and> 0.2 \<le> s_opacity fl \<and> s_opacity fl \<le> 0.7)
          (snowflakes (run evs (mount r symmetry c f w h)))"
    if "\<forall>k. 0 \<le> r k \<and> r k < 1"
  proof -
    from that have "snow_inv (run evs (mount r symmetry c f w h))"
      by (intro run_snow_inv mount_snow_inv)
    then show ?thesis
      by (auto simp add: snow_inv_def list_all_iff flake_ok_def)
  qed
  have stepped: "list_all2
          (\<lambda>fl fl'. advanced (rnd env) (real (canvasW s)) (real (canvasH s)) fl fl'
             \<and> s_y fl' \<le> real (canvasH s))
          (snowflakes s) (snowflakes (fst (animate env s)))"
    if "available env" for s
    using that falling_snow_advanced [of "rnd env" "real (canvasW s)" "real (canvasH s)" "snowflakes s" 0]
    by (auto simp add: animate_snowflakes list_all2_conv_all_nth advanced_below)
  then have advance: "available env \<longrightarrow>
        list_all2
          (\<lambda>fl fl'.
             s_size fl' = s_size fl \<and> s_speed fl' = s_speed fl \<and>
             s_opacity fl' = s_opacity fl \<and> s_wind fl' = s_wind fl \<and>
             (if s_y fl + s_speed fl > real (canvasH s)
              then s_y fl' = - 10 \<and> (\<exists>k. s_x fl' = rnd env k * real (canvasW s))
              else s_y fl' = s_y fl + s_speed fl \<and> s_x fl' = s_x fl + s_wind fl) \<and>
             s_y fl' \<le> real (canvasH s))
          (snowflakes s) (snowflakes (fst (animate env s)))"
    by (simp add: advanced_def conj_assoc)
  have overshoot: "list_all (\<lambda>fl. s_y fl \<le> real (canvasH (run evs (mount r symmetry c f w h))) + s_speed fl)
          (snowflakes (fst (animate env (run evs (mount r symmetry c f w h)))))"
    if r: "\<forall>k. 0 \<le> r k \<and> r k < 1" and env: "available env"
  proof -
    let ?s = "run evs (mount r symmetry c f w h)"
    from r have "snow_inv (fst (animate env ?s))"
      by (intro animate_snow_inv run_snow_inv mount_snow_inv)
    then have "\<forall>fl\<in>set (snowflakes (fst (animate env ?s))). 0 \<le> s_speed fl"
      by (auto simp add: snow_inv_def list_all_iff flake_ok_def)
    moreover from stepped [OF env, of ?s]
    have "\<forall>fl\<in>set (snowflakes (fst (animate env ?s))). s_y fl \<le> real (canvasH ?s)"
      by (auto simp add: list_all2_conv_all_nth in_set_conv_nth)
    ultimately show ?thesis
      by (auto simp add: list_all_iff intro: add_increasing2)
  qed
  from bounds advance overshoot snow_count show ?thesis
    by blast
qed

theorem particle_invariants_witness:
  "length (snowflakes (run [Refresh example_env] example_mount)) = 60
   \<and> list_all (\<lambda>fl. 0 \<le> s_size fl \<and> s_size fl \<le> 4 \<and> 0.2 \<le> s_opacity fl \<and> s_opacity fl \<le> 0.7)
        (snowflakes (run [Refresh example_env] example_mount))
   \<and> list_all2
        (\<lambda>fl fl'.
           s_size fl' = s_size fl \<and> s_speed fl' = s_speed fl \<and>
           s_opacity fl' = s_opacity fl \<and> s_wind fl' = s_wind fl \<and>
           (if s_y fl + s_speed fl > real (canvasH example_mount)
            then s_y fl' = - 10 \<and> (\<exists>k. s_x fl' = rnd example_env k * real (canvasW example_mount))
            else s_y fl' = s_y fl + s_speed fl \<and> s_x fl' = s_x fl + s_wind fl) \<and>
           s_y fl' \<le> real (canvasH example_mount))
        (snowflakes example_mount) (snowflakes (fst (animate example_env example_mount)))
   \<and> list_all
        (\<lambda>fl. s_y fl \<le> real (canvasH (run [Refresh example_env] example_mount)) + s_speed fl)
        (snowflakes (fst (animate example_env (run [Refresh example_env] example_mount))))"
proof -
  have unit: "\<forall>k::nat. (0::real) \<le> 1 / 2 \<and> (1::real) / 2 < 1"
    by simp
  from particle_invariants [where r = "\<lambda>k. 1 / 2" and symmetry = False and c = True and f = True
      and w = 800 and h = 600 and evs = "[Refresh example_env]" and env = example_env
      and s = example_mount, unfolded example_mount_def [symmetric]]
    unit example_env_fields(1)
  show ?thesis
    by blast
qed

text \<open>
  C7 as stated fails in its bound on \<open>y\<close>. The flakes are initialised over a height of
  1080 whatever the viewport: mounted at 800 by 600, the first flake is at \<open>y = 972\<close>
  with speed 1.85, more than its speed beyond the height of 600, before any advance. And
  after one advance at 1920 by 1080 and a resize to 800 by 600 the first flake is at
  \<open>y = 973.85\<close>, again more than its speed beyond the height.
\<close>

theorem particle_overshoot_counterexample:
  "canvasH example_low_mount = 600
   \<and> s_y (snowflakes example_low_mount ! 0) = 972
   \<and> s_speed (snowflakes example_low_mount ! 0) = 37 / 20
   \<and> s_y (snowflakes example_low_mount ! 0)
       > real (canvasH example_low_mount) + s_speed (snowflakes example_low_mount ! 0)
   \<and> canvasH example_shrunk = 600
   \<and> s_y (snowflakes example_shrunk ! 0) = 19477 / 20
   \<and> s_y (snowflakes example_shrunk ! 0)
       > real (canvasH example_shrunk) + s_speed (snowflakes example_shrunk ! 0)"
  by (simp add: example_low_mount_fields example_shrunk_fields)

text \<open>
  C8. A face result without a face (no list, or an empty one) sets the breath intensity
  to 0 at once and changes nothing else: the mouth point keeps its last value.
\<close>

theorem face_loss_transition:
  "faceMesh_onResults None s = (None, s\<lparr>breathIntensity := 0\<rparr>)
   \<and> faceMesh_onResults (Some []) s = (None, s\<lparr>breathIntensity := 0\<rparr>)
   \<and> breathIntensity (snd (faceMesh_onResults None s)) = 0
   \<and> breathIntensity (snd (faceMesh_onResults (Some []) s)) = 0
   \<and> mouthPos (snd (faceMesh_onResults None s)) = mouthPos s
   \<and> mouthPos (snd (faceMesh_onResults (Some []) s)) = mouthPos s"
  by (simp add: faceMesh_onResults_def)

text \<open>
  C9. With the canvas mounted and the fog context there, the fog surface after the mount
  and after every resize is exactly one fill with \<open>rgba(200, 220, 240, 0.15)\<close> of the
  rectangle from (0, 0) to the new width and height, which are the dimensions the resize
  gives the canvases: it is not blank before the first breath.
\<close>

theorem fog_seeded_on_mount_and_resize:
  "(canvasThere \<and> fCtxThere \<longrightarrow>
      fog (mount r symmetry canvasThere fCtxThere w h) =
        [FillRect SourceOver (200, 220, 240, 0.15) 0 0 (real w) (real h)]
      \<and> fog (resize canvasThere fCtxThere w h s) =
        [FillRect SourceOver (200, 220, 240, 0.15) 0 0 (real w) (real h)]
      \<and> canvasW (resize canvasThere fCtxThere w h s) = w
      \<and> canvasH (resize canvasThere fCtxThere w h s) = h
      \<and> (mounted s \<longrightarrow>
           fog (step (WindowResize canvasThere fCtxThere w h) s) =
             [FillRect SourceOver (200, 220, 240, 0.15) 0 0 (real w) (real h)]))"
  by (simp add: mount_def animate_effect_def resize_def)

theorem fog_seeded_on_mount_and_resize_witness:
  "fog example_mount = [FillRect SourceOver (200, 220, 240, 3 / 20) 0 0 800 600]
   \<and> fog (resize True True 1024 768 example_tracking) =
       [FillRect SourceOver (200, 220, 240, 3 / 20) 0 0 1024 768]
   \<and> fog (step (WindowResize True True 1024 768) example_tracking) =
       [FillRect SourceOver (200, 220, 240, 3 / 20) 0 0 1024 768]"
  using fog_seeded_on_mount_and_resize [of True True "\<lambda>k. 1 / 2" False 800 600 example_tracking]
    fog_seeded_on_mount_and_resize [of True True "\<lambda>k. 1 / 2" False 1024 768 example_tracking]
  by (simp add: example_mount_def example_tracking_fields)

text \<open>
  C10. The mouth point starts at (0.5, 0.5). As long as no face result has carried a
  face, a render step that passes its guards while the manual breath is active deposits
  fog centred at the middle of the canvas, with the intensity 0.8 of the manual breath
  (radius 220, alpha 0.032 at the centre).
\<close>

theorem manual_breath_before_any_face:
  "mouthPos (initial symmetry) = \<lparr>pt_x = 0.5, pt_y = 0.5\<rparr>
   \<and> ((\<forall>e\<in>set evs. \<not> face_seen e)
        \<and> isBreathingManual (run evs (mount r symmetry c f w h))
        \<and> available env \<longrightarrow>
      (let s = run evs (mount r symmetry c f w h);
           x = real (canvasW s) / 2;
           y = real (canvasH s) / 2
       in deposits (fog_ops (snd (animate env s))) =
            [FillArc SourceOver
               (RadialGradient x y 0 x y 220
                  [(0, (200, 220, 240, 0.032)),
                   (0.6, (200, 220, 240, 0.0128)),
                   (1, (200, 220, 240, 0))])
               x y 220]))"
proof -
  have "deposits (fog_ops (snd (animate env (run evs (mount r symmetry c f w h))))) =
      [FillArc SourceOver
         (RadialGradient (real (canvasW (run evs (mount r symmetry c f w h))) / 2)
            (real (canvasH (run evs (mount r symmetry c f w h))) / 2) 0
            (real (canvasW (run evs (mount r symmetry c f w h))) / 2)
            (real (canvasH (run evs (mount r symmetry c f w h))) / 2) 220
            [(0, (200, 220, 240, 0.032)), (0.6, (200, 220, 240, 0.0128)), (1, (200, 220, 240, 0))])
         (real (canvasW (run evs (mount r symmetry c f w h))) / 2)
         (real (canvasH (run evs (mount r symmetry c f w h))) / 2) 220]"
    if quiet: "\<forall>e\<in>set evs. \<not> face_seen e"
      and manual: "isBreathingManual (run evs (mount r symmetry c f w h))"
      and avail: "available env"
  proof -
    from run_no_face [OF quiet mount_breath(1)]
    have "breathIntensity (run evs (mount r symmetry c f w h)) = 0"
      and "mouthPos (run evs (mount r symmetry c f w h)) = \<lparr>pt_x = 0.5, pt_y = 0.5\<rparr>"
      by (simp_all add: mount_breath)
    with manual show ?thesis
      by (simp add: animate_deposits [OF avail] fog_accumulation_def effectiveIntensity_def Let_def)
  qed
  then show ?thesis
    by (simp add: initial_def Let_def)
qed

theorem manual_breath_before_any_face_witness:
  "isBreathingManual (run [KeyDown ''Space''] example_mount)
   \<and> deposits (fog_ops (snd (animate example_env (run [KeyDown ''Space''] example_mount)))) =
       [FillArc SourceOver
          (RadialGradient 400 300 0 400 300 220
             [(0, (200, 220, 240, 4 / 125)), (3 / 5, (200, 220, 240, 8 / 625)), (1, (200, 220, 240, 0))])
          400 300 220]"
  using manual_breath_before_any_face [of False "[KeyDown ''Space'']" "\<lambda>k. 1 / 2" True True 800 600 example_env]
  by (simp add: example_mount_def [symmetric] example_mount_fields example_env_fields
      handleKeyDown_def Let_def)

end
